theory Spec2Isabelle
  imports Complex_Main "HOL-Library.Word"
begin

unbundle bit_operations_syntax

section \<open>The native Point bridge (libJNIPoint.c)\<close>

text \<open>
  The translation unit \<^verbatim>\<open>libJNIPoint.c\<close> declares the structure \<^verbatim>\<open>Point\<close>, the
  functions \<^verbatim>\<open>distance\<close> and \<^verbatim>\<open>distance_ptrs\<close>, and eight JNI entry points. This
  theory embeds all of them.

  Conventions of the embedding:
  \<^item> C \<^verbatim>\<open>int\<close> and \<^verbatim>\<open>jint\<close> are \<open>32 word\<close>; \<^verbatim>\<open>jlong\<close> and native addresses are \<open>64 word\<close>
    (a 64-bit platform, where the casts between \<^verbatim>\<open>jlong\<close> and \<^verbatim>\<open>Point*\<close> keep all bits).
  \<^item> Signed overflow, which ISO C leaves undefined, is two's complement wrap-around:
    the operations of \<open>32 word\<close>, read back as a signed value with \<open>sint\<close>.
  \<^item> A \<^verbatim>\<open>double\<close> is either not-a-number or a real number; the square root rounds its
    exact result to 53 significant bits, ties to even.
  \<^item> Memory is a store from addresses to the Points that are live there. An access
    through an address that holds no live Point is undefined behaviour in C; the
    embedding returns \<open>None\<close> for it.
\<close>

subsection \<open>Data\<close>

type_synonym jint = "32 word"
type_synonym jlong = "64 word"

text \<open>\<^verbatim>\<open>typedef struct { int x; int y; } Point;\<close>\<close>

record Point =
  x :: "32 word"
  y :: "32 word"

text \<open>The store: the Point that lives at an address, if one does.\<close>

type_synonym memory = "64 word \<Rightarrow> Point option"

subsection \<open>Doubles and the library functions the code calls\<close>

text \<open>
  The values a \<^verbatim>\<open>double\<close> takes on the paths of this file: the code converts a 32-bit
  integer and takes a square root, so neither an infinity nor a negative zero arises.
\<close>

datatype double = NaN | Finite real

text \<open>The comparisons \<^verbatim>\<open>==\<close> and \<^verbatim>\<open>>=\<close> of C on doubles: false as soon as one side is NaN.\<close>

fun double_eq :: "double \<Rightarrow> double \<Rightarrow> bool" where
  "double_eq (Finite a) (Finite b) = (a = b)"
| "double_eq _ _ = False"

fun double_ge :: "double \<Rightarrow> double \<Rightarrow> bool" where
  "double_ge (Finite a) (Finite b) = (b \<le> a)"
| "double_ge _ _ = False"

text \<open>Rounding a real to the nearest integer, a tie going to the even neighbour.\<close>

definition round_even :: "real \<Rightarrow> int" where
  "round_even r =
     (let f = \<lfloor>r\<rfloor> in
      if r - of_int f < 1 / 2 then f
      else if 1 / 2 < r - of_int f then f + 1
      else if even f then f else f + 1)"

text \<open>
  Rounding a real to 53 significant bits: with \<open>2 ^ k \<le> \<bar>r\<bar> < 2 ^ (k + 1)\<close> the
  representable neighbours of \<open>r\<close> are the multiples of \<open>2 ^ (k - 52)\<close>. The exponent
  range of the format plays no part here: the square roots this file takes lie
  between 0 and \<open>2 ^ 16\<close>.
\<close>

definition round_double :: "real \<Rightarrow> real" where
  "round_double r =
     (if r = 0 then 0
      else let e = \<lfloor>log 2 \<bar>r\<bar>\<rfloor> - 52
           in of_int (round_even (r / 2 powi e)) * 2 powi e)"

text \<open>The implicit conversion of an \<^verbatim>\<open>int\<close> argument to \<^verbatim>\<open>double\<close>: exact, 32 bits fit in 53.\<close>

definition double_of_int :: "32 word \<Rightarrow> double" where
  "double_of_int i = Finite (of_int (sint i))"

text \<open>\<^verbatim>\<open>sqrt\<close> of \<^verbatim>\<open><math.h>\<close>: NaN for a NaN or a negative argument, else correctly rounded.\<close>

fun c_sqrt :: "double \<Rightarrow> double" where
  "c_sqrt NaN = NaN"
| "c_sqrt (Finite r) = (if r < 0 then NaN else Finite (round_double (sqrt r)))"

text \<open>
  \<^verbatim>\<open>abs\<close> of \<^verbatim>\<open><stdlib.h>\<close>. The negation wraps, so the most negative integer is its own
  absolute value.
\<close>

definition c_abs :: "32 word \<Rightarrow> 32 word" where
  "c_abs i = (if sint i < 0 then - i else i)"

text \<open>
  \<^verbatim>\<open>malloc(sizeof (Point))\<close>. The allocator is outside the program: its choice of an
  address \<open>a\<close> and the indeterminate contents \<open>junk\<close> of the new block are arguments.
  It returns either a non-null address at which no Point is live, or the null pointer
  and leaves the store alone.
\<close>

definition malloc :: "memory \<Rightarrow> 64 word \<Rightarrow> Point \<Rightarrow> 64 word \<times> memory" where
  "malloc m a junk = (if a \<noteq> 0 \<and> m a = None then (a, m(a \<mapsto> junk)) else (0, m))"

text \<open>
  \<^verbatim>\<open>free\<close>: nothing happens on the null pointer, a live block is retired, anything else
  is undefined.
\<close>

definition free :: "memory \<Rightarrow> 64 word \<Rightarrow> memory option" where
  "free m p = (if p = 0 then Some m else if m p = None then None else Some (m(p := None)))"

subsection \<open>The distance functions\<close>

text \<open>
  \<^verbatim>\<open>
  double distance(Point p1, Point p2) {
      int xDist = abs(p1.x - p2.x);
      int yDist = abs(p1.y - p2.y);
      return sqrt((xDist * xDist) + (yDist * yDist));
  }
  \<close>
\<close>

definition distance :: "Point \<Rightarrow> Point \<Rightarrow> double" where
  "distance p1 p2 =
     (let xDist = c_abs (x p1 - x p2);
          yDist = c_abs (y p1 - y p2)
      in c_sqrt (double_of_int ((xDist * xDist) + (yDist * yDist))))"

text \<open>\<^verbatim>\<open>double distance_ptrs(Point* p1, Point* p2) { return distance(*p1, *p2); }\<close>\<close>

definition distance_ptrs :: "memory \<Rightarrow> 64 word \<Rightarrow> 64 word \<Rightarrow> double option" where
  "distance_ptrs m p1 p2 =
     (case m p1 of None \<Rightarrow> None
      | Some v1 \<Rightarrow> (case m p2 of None \<Rightarrow> None
                    | Some v2 \<Rightarrow> Some (distance v1 v2)))"

subsection \<open>The JNI entry points on handles\<close>

text \<open>
  The parameters \<^verbatim>\<open>env\<close> and \<^verbatim>\<open>cls\<close> are unused by the entry points of this subsection and
  are left out. Each definition carries the exported symbol; the short names are
  abbreviations of them.
\<close>

definition Java_org_openjdk_bench_jdk_incubator_foreign_points_support_JNIPoint_allocate
  :: "memory \<Rightarrow> 64 word \<Rightarrow> Point \<Rightarrow> jlong \<times> memory" where
  "Java_org_openjdk_bench_jdk_incubator_foreign_points_support_JNIPoint_allocate m a junk =
     malloc m a junk"

definition Java_org_openjdk_bench_jdk_incubator_foreign_points_support_JNIPoint_free
  :: "memory \<Rightarrow> jlong \<Rightarrow> memory option" where
  "Java_org_openjdk_bench_jdk_incubator_foreign_points_support_JNIPoint_free m thisPoint =
     free m thisPoint"

definition Java_org_openjdk_bench_jdk_incubator_foreign_points_support_JNIPoint_getX
  :: "memory \<Rightarrow> jlong \<Rightarrow> jint option" where
  "Java_org_openjdk_bench_jdk_incubator_foreign_points_support_JNIPoint_getX m thisPoint =
     (case m thisPoint of None \<Rightarrow> None | Some point \<Rightarrow> Some (x point))"

definition Java_org_openjdk_bench_jdk_incubator_foreign_points_support_JNIPoint_setX
  :: "memory \<Rightarrow> jlong \<Rightarrow> jint \<Rightarrow> memory option" where
  "Java_org_openjdk_bench_jdk_incubator_foreign_points_support_JNIPoint_setX m thisPoint val =
     (case m thisPoint of None \<Rightarrow> None
      | Some point \<Rightarrow> Some (m(thisPoint \<mapsto> point\<lparr>x := val\<rparr>)))"

definition Java_org_openjdk_bench_jdk_incubator_foreign_points_support_JNIPoint_getY
  :: "memory \<Rightarrow> jlong \<Rightarrow> jint option" where
  "Java_org_openjdk_bench_jdk_incubator_foreign_points_support_JNIPoint_getY m thisPoint =
     (case m thisPoint of None \<Rightarrow> None | Some point \<Rightarrow> Some (y point))"

definition Java_org_openjdk_bench_jdk_incubator_foreign_points_support_JNIPoint_setY
  :: "memory \<Rightarrow> jlong \<Rightarrow> jint \<Rightarrow> memory option" where
  "Java_org_openjdk_bench_jdk_incubator_foreign_points_support_JNIPoint_setY m thisPoint val =
     (case m thisPoint of None \<Rightarrow> None
      | Some point \<Rightarrow> Some (m(thisPoint \<mapsto> point\<lparr>y := val\<rparr>)))"

definition Java_org_openjdk_bench_jdk_incubator_foreign_points_support_JNIPoint_distance
  :: "memory \<Rightarrow> jlong \<Rightarrow> jlong \<Rightarrow> double option" where
  "Java_org_openjdk_bench_jdk_incubator_foreign_points_support_JNIPoint_distance m thisPoint other =
     (case m thisPoint of None \<Rightarrow> None
      | Some v1 \<Rightarrow> (case m other of None \<Rightarrow> None
                    | Some v2 \<Rightarrow> Some (distance v1 v2)))"

abbreviation "JNIPoint_allocate \<equiv>
  Java_org_openjdk_bench_jdk_incubator_foreign_points_support_JNIPoint_allocate"
abbreviation "JNIPoint_free \<equiv>
  Java_org_openjdk_bench_jdk_incubator_foreign_points_support_JNIPoint_free"
abbreviation "JNIPoint_getX \<equiv>
  Java_org_openjdk_bench_jdk_incubator_foreign_points_support_JNIPoint_getX"
abbreviation "JNIPoint_setX \<equiv>
  Java_org_openjdk_bench_jdk_incubator_foreign_points_support_JNIPoint_setX"
abbreviation "JNIPoint_getY \<equiv>
  Java_org_openjdk_bench_jdk_incubator_foreign_points_support_JNIPoint_getY"
abbreviation "JNIPoint_setY \<equiv>
  Java_org_openjdk_bench_jdk_incubator_foreign_points_support_JNIPoint_setY"
abbreviation "JNIPoint_distance \<equiv>
  Java_org_openjdk_bench_jdk_incubator_foreign_points_support_JNIPoint_distance"

subsection \<open>The JNI entry point on direct buffers\<close>

text \<open>
  A \<^verbatim>\<open>jobject\<close> as this entry point sees it: a direct buffer, known by the bytes of the
  region it refers to, or any other object. \<^verbatim>\<open>GetDirectBufferAddress\<close> gives the start of
  the region of a direct buffer and the null pointer for anything else.
\<close>

datatype jobject = DirectBuffer "8 word list" | OtherObject

fun GetDirectBufferAddress :: "jobject \<Rightarrow> 8 word list option" where
  "GetDirectBufferAddress (DirectBuffer bs) = Some bs"
| "GetDirectBufferAddress OtherObject = None"

text \<open>The byte order of the platform the library is compiled for.\<close>

datatype endian = LittleEndian | BigEndian

text \<open>An \<^verbatim>\<open>int\<close> read from its bytes, lowest byte first.\<close>

fun le_int :: "8 word list \<Rightarrow> 32 word" where
  "le_int [] = 0"
| "le_int (b # bs) = ucast b OR push_bit 8 (le_int bs)"

definition load_int :: "endian \<Rightarrow> 8 word list \<Rightarrow> 32 word" where
  "load_int e bs = (case e of LittleEndian \<Rightarrow> le_int bs | BigEndian \<Rightarrow> le_int (rev bs))"

text \<open>
  The read \<^verbatim>\<open>*p\<close> of a \<^verbatim>\<open>Point\<close> through a pointer to the start of a region: \<^verbatim>\<open>x\<close> from the
  bytes 0 to 3 and \<^verbatim>\<open>y\<close> from the bytes 4 to 7. Reading past the end of the region is
  undefined.
\<close>

definition load_Point :: "endian \<Rightarrow> 8 word list \<Rightarrow> Point option" where
  "load_Point e bs =
     (if length bs < 8 then None
      else Some \<lparr>x = load_int e (take 4 bs), y = load_int e (take 4 (drop 4 bs))\<rparr>)"

text \<open>
  \<^verbatim>\<open>
  Point* p1 = (Point*) (*env)->GetDirectBufferAddress(env, buffP1);
  Point* p2 = (Point*) (*env)->GetDirectBufferAddress(env, buffP2);
  return distance(*p1, *p2);
  \<close>
  The result of \<^verbatim>\<open>GetDirectBufferAddress\<close> is not checked, so the null pointer is
  dereferenced.
\<close>

definition Java_org_openjdk_bench_jdk_incubator_foreign_points_support_BBPoint_distance
  :: "endian \<Rightarrow> jobject \<Rightarrow> jobject \<Rightarrow> double option" where
  "Java_org_openjdk_bench_jdk_incubator_foreign_points_support_BBPoint_distance e buffP1 buffP2 =
     (case GetDirectBufferAddress buffP1 of None \<Rightarrow> None
      | Some r1 \<Rightarrow>
     (case GetDirectBufferAddress buffP2 of None \<Rightarrow> None
      | Some r2 \<Rightarrow>
     (case load_Point e r1 of None \<Rightarrow> None
      | Some v1 \<Rightarrow>
     (case load_Point e r2 of None \<Rightarrow> None
      | Some v2 \<Rightarrow> Some (distance v1 v2)))))"

abbreviation "BBPoint_distance \<equiv>
  Java_org_openjdk_bench_jdk_incubator_foreign_points_support_BBPoint_distance"

subsection \<open>What the specification describes\<close>

text \<open>
  The layout the specification gives for an externally backed Point: two consecutive
  32-bit integers in native byte order, \<^verbatim>\<open>x\<close> then \<^verbatim>\<open>y\<close>.
\<close>

fun le_bytes :: "nat \<Rightarrow> 32 word \<Rightarrow> 8 word list" where
  "le_bytes 0 w = []"
| "le_bytes (Suc n) w = ucast w # le_bytes n (drop_bit 8 w)"

definition store_int :: "endian \<Rightarrow> 32 word \<Rightarrow> 8 word list" where
  "store_int e w = (case e of LittleEndian \<Rightarrow> le_bytes 4 w | BigEndian \<Rightarrow> rev (le_bytes 4 w))"

definition store_Point :: "endian \<Rightarrow> Point \<Rightarrow> 8 word list" where
  "store_Point e p = store_int e (x p) @ store_int e (y p)"

text \<open>
  The formula of the specification, written on unbounded integers with every 32-bit
  operation wrapped by hand: \<open>wrap32\<close> brings an integer back into the signed 32-bit
  range modulo \<open>2 ^ 32\<close>.
\<close>

definition wrap32 :: "int \<Rightarrow> int" where
  "wrap32 i = (i + 2 ^ 31) mod 2 ^ 32 - 2 ^ 31"

definition spec_distance :: "int \<Rightarrow> int \<Rightarrow> int \<Rightarrow> int \<Rightarrow> double" where
  "spec_distance x1 y1 x2 y2 =
     (let dx = wrap32 \<bar>wrap32 (x1 - x2)\<bar>;
          dy = wrap32 \<bar>wrap32 (y1 - y2)\<bar>
      in c_sqrt (Finite (of_int (wrap32 (wrap32 (dx ^ 2) + wrap32 (dy ^ 2))))))"

text \<open>The Euclidean distance of two Points as a real number, nothing wrapped or rounded.\<close>

definition euclid :: "Point \<Rightarrow> Point \<Rightarrow> real" where
  "euclid p1 p2 =
     sqrt (of_int ((sint (x p1) - sint (x p2)) ^ 2 + (sint (y p1) - sint (y p2)) ^ 2))"

text \<open>The integer that \<open>distance\<close> hands to the square root.\<close>

definition radicand :: "Point \<Rightarrow> Point \<Rightarrow> 32 word" where
  "radicand p1 p2 =
     (let xDist = c_abs (x p1 - x p2);
          yDist = c_abs (y p1 - y p2)
      in (xDist * xDist) + (yDist * yDist))"

section \<open>Properties\<close>

text \<open>The defining equations of the handle entry points, for unfolding.\<close>

lemmas JNIPoint_defs =
  Java_org_openjdk_bench_jdk_incubator_foreign_points_support_JNIPoint_allocate_def
  Java_org_openjdk_bench_jdk_incubator_foreign_points_support_JNIPoint_free_def
  Java_org_openjdk_bench_jdk_incubator_foreign_points_support_JNIPoint_getX_def
  Java_org_openjdk_bench_jdk_incubator_foreign_points_support_JNIPoint_setX_def
  Java_org_openjdk_bench_jdk_incubator_foreign_points_support_JNIPoint_getY_def
  Java_org_openjdk_bench_jdk_incubator_foreign_points_support_JNIPoint_setY_def
  Java_org_openjdk_bench_jdk_incubator_foreign_points_support_JNIPoint_distance_def

subsection \<open>Rounding\<close>

lemma round_even_of_int: "round_even (of_int k) = k"
  by (simp add: round_even_def)

lemma round_even_nonneg: "0 \<le> r \<Longrightarrow> 0 \<le> round_even r"
  by (auto simp: round_even_def Let_def)

lemma round_double_nonneg: "0 \<le> r \<Longrightarrow> 0 \<le> round_double r"
  by (auto simp: round_double_def Let_def
      intro!: mult_nonneg_nonneg round_even_nonneg divide_nonneg_nonneg)

text \<open>An integer of fewer than 54 bits is a double: rounding leaves it alone.\<close>

lemma round_double_of_int:
  assumes "0 < k" "k < 2 ^ 53"
  shows "round_double (of_int k) = of_int k"
proof -
  define n where "n = \<lfloor>log 2 \<bar>real_of_int k\<bar>\<rfloor>"
  have kpos: "0 < real_of_int k" using assms by simp
  have "real_of_int k < 2 ^ 53"
    using assms(2) by (metis of_int_less_iff of_int_numeral of_int_power)
  then have "log 2 (real_of_int k) < 53"
    using kpos by (simp add: log_less_iff powr_realpow del: of_int_less_iff)
  then have n52: "n \<le> 52"
    using kpos by (simp add: n_def floor_le_iff abs_of_pos)
  define j where "j = nat (52 - n)"
  have e: "n - 52 = - int j" using n52 by (simp add: j_def)
  have p: "(2::real) powi (n - 52) = 1 / 2 ^ j"
    unfolding e by (simp add: power_int_minus field_simps)
  have q: "real_of_int k / (1 / 2 ^ j) = of_int (k * 2 ^ j)" by simp
  have "round_double (of_int k) =
      of_int (round_even (real_of_int k / 2 powi (n - 52))) * 2 powi (n - 52)"
    using kpos by (simp add: round_double_def n_def Let_def)
  also have "\<dots> = of_int (k * 2 ^ j) * (1 / 2 ^ j)"
    unfolding p q round_even_of_int ..
  also have "\<dots> = of_int k" by simp
  finally show ?thesis .
qed

lemma round_double_5: "round_double 5 = 5"
  using round_double_of_int [of 5] by simp

lemma round_double_65536: "round_double 65536 = 65536"
  using round_double_of_int [of 65536] by simp

lemma sqrt_25: "sqrt 25 = 5"
  using real_sqrt_abs [of 5] by simp

subsection \<open>Wrapping arithmetic\<close>

lemma c_abs_minus: "c_abs (- w) = c_abs w"
proof (cases "sint w = - (2 ^ 31)")
  case True
  then have "sint (- w) = sint w"
    by (simp add: sint_word_ariths signed_take_bit_eq_take_bit_shift take_bit_eq_mod)
  then have eq: "- w = w" by (rule signed_word_eqI)
  show ?thesis by (subst eq) (rule refl)
next
  case False
  have "- (2 ^ 31) \<le> sint w" "sint w < 2 ^ 31"
    using sint_ge [of w] sint_lt [of w] by simp_all
  with False have "sint (- w) = - sint w"
    by (simp add: sint_word_ariths signed_take_bit_int_eq_self)
  moreover have "w = 0" if "sint w = 0"
    using that by (simp add: signed_eq_0_iff)
  ultimately show ?thesis
    by (cases "w = 0") (auto simp: c_abs_def)
qed

lemma c_abs_diff_commute: "c_abs (a - b) = c_abs (b - a)"
  using c_abs_minus [of "a - b"] by simp

lemma signed_take_bit_wrap32: "signed_take_bit 31 i = wrap32 i"
  by (simp add: wrap32_def signed_take_bit_eq_take_bit_shift take_bit_eq_mod)

lemma wrap32_sint: "wrap32 (sint (w :: 32 word)) = sint w"
  using sint_ge [of w] sint_lt [of w]
  by (simp add: signed_take_bit_wrap32 [symmetric] signed_take_bit_int_eq_self)

lemma sint_minus32: "sint (a - b :: 32 word) = wrap32 (sint a - sint b)"
  by (simp add: sint_word_ariths signed_take_bit_wrap32)

lemma sint_plus32: "sint (a + b :: 32 word) = wrap32 (sint a + sint b)"
  by (simp add: sint_word_ariths signed_take_bit_wrap32)

lemma sint_times32: "sint (a * b :: 32 word) = wrap32 (sint a * sint b)"
  by (simp add: sint_word_ariths signed_take_bit_wrap32)

lemma sint_c_abs: "sint (c_abs w) = wrap32 \<bar>sint w\<bar>"
  by (simp add: c_abs_def sint_word_ariths signed_take_bit_wrap32 wrap32_sint)

lemma distance_radicand: "distance p1 p2 = c_sqrt (double_of_int (radicand p1 p2))"
  by (simp add: distance_def radicand_def Let_def)

lemma radicand_commute: "radicand p1 p2 = radicand p2 p1"
  by (simp add: radicand_def c_abs_diff_commute [of "x p1"] c_abs_diff_commute [of "y p1"])

lemma radicand_same: "radicand p p = 0"
  by (simp add: radicand_def c_abs_def)

lemma c_sqrt_double_of_int:
  "c_sqrt (double_of_int i) =
     (if sint i < 0 then NaN else Finite (round_double (sqrt (of_int (sint i)))))"
  by (simp only: double_of_int_def c_sqrt.simps of_int_less_0_iff)

text \<open>The sign of the radicand decides between a number that is at least 0 and NaN.\<close>

lemma distance_sign:
  "(if 0 \<le> sint (radicand p1 p2) then double_ge (distance p1 p2) (Finite 0)
    else distance p1 p2 = NaN)"
proof (cases "sint (radicand p1 p2) < 0")
  case True
  then show ?thesis by (simp add: distance_radicand c_sqrt_double_of_int)
next
  case False
  then have "0 \<le> round_double (sqrt (of_int (sint (radicand p1 p2))))"
    by (intro round_double_nonneg) (simp del: of_int_sint)
  with False show ?thesis
    by (simp add: distance_radicand c_sqrt_double_of_int del: of_int_sint)
qed

text \<open>
  Under the comparison \<^verbatim>\<open>==\<close> of C the two argument orders compare equal exactly when the
  result is a number.
\<close>

lemma distance_double_eq_commute:
  "double_eq (distance p1 p2) (distance p2 p1) = (distance p1 p2 \<noteq> NaN)"
  by (cases "distance p1 p2") (simp_all add: distance_radicand radicand_commute [of p2 p1])

subsection \<open>Concrete runs\<close>

lemma distance_1_1_4_5: "distance \<lparr>x = 1, y = 1\<rparr> \<lparr>x = 4, y = 5\<rparr> = Finite 5"
  by (simp add: distance_def c_abs_def double_of_int_def sqrt_25 round_double_5)

lemma distance_65536: "distance \<lparr>x = 0, y = 0\<rparr> \<lparr>x = 65536, y = 0\<rparr> = Finite 0"
  by (simp add: distance_def c_abs_def double_of_int_def round_double_def)

lemma euclid_65536: "euclid \<lparr>x = 0, y = 0\<rparr> \<lparr>x = 65536, y = 0\<rparr> = 65536"
  using real_sqrt_abs [of 65536] by (simp add: euclid_def)

lemma distance_46341: "distance \<lparr>x = 0, y = 0\<rparr> \<lparr>x = 46341, y = 0\<rparr> = NaN"
  by (simp add: distance_def c_abs_def double_of_int_def)

lemma radicand_46341:
  "sint (radicand \<lparr>x = 0, y = 0\<rparr> \<lparr>x = 46341, y = 0\<rparr>) = - 2147479015"
  by (simp add: radicand_def c_abs_def)

subsection \<open>The store and the buffers\<close>

lemma distance_ptrs_eq:
  "m a1 = Some p1 \<Longrightarrow> m a2 = Some p2 \<Longrightarrow> distance_ptrs m a1 a2 = Some (distance p1 p2)"
  by (simp add: distance_ptrs_def)

lemma JNIPoint_distance_eq:
  "m a1 = Some p1 \<Longrightarrow> m a2 = Some p2 \<Longrightarrow>
   JNIPoint_distance m a1 a2 = Some (distance p1 p2)"
  by (simp add: JNIPoint_defs)

text \<open>A non-null result of \<open>allocate\<close> is the address of a new live Point.\<close>

lemma allocate_live:
  assumes "JNIPoint_allocate m a junk = (h, m1)" and "h \<noteq> 0"
  shows "m1 = m(h \<mapsto> junk) \<and> m h = None \<and> h = a"
  using assms by (auto simp: JNIPoint_defs malloc_def split: if_splits)

lemma le_bytes_4:
  "le_bytes 4 w = [ucast w, ucast (drop_bit 8 w), ucast (drop_bit 16 w), ucast (drop_bit 24 w)]"
proof -
  have four: "(4::nat) = Suc (Suc (Suc (Suc 0)))" by simp
  show ?thesis unfolding four by (simp add: drop_bit_drop_bit)
qed

lemma le_int_4:
  "le_int [b0, b1, b2, b3] =
     ucast b0 OR push_bit 8 (ucast b1) OR push_bit 16 (ucast b2) OR push_bit 24 (ucast b3)"
  by (simp add: push_bit_or push_bit_push_bit)

lemma le_int_le_bytes: "le_int (le_bytes 4 w) = w"
proof (rule bit_eqI)
  fix n
  assume "possible_bit TYPE(32 word) n"
  then have n: "n < 32" by simp
  have "bit (le_int (le_bytes 4 w)) n =
      (n < 8 \<and> bit w n \<or>
       8 \<le> n \<and> n - 8 < 32 \<and> n - 8 < 8 \<and> bit w (8 + (n - 8)) \<or>
       16 \<le> n \<and> n - 16 < 32 \<and> n - 16 < 8 \<and> bit w (16 + (n - 16)) \<or>
       24 \<le> n \<and> n - 24 < 32 \<and> n - 24 < 8 \<and> bit w (24 + (n - 24)))"
    unfolding le_bytes_4 le_int_4 using n
    by (simp only: bit_or_iff bit_push_bit_iff bit_ucast_iff bit_drop_bit_eq)
      (simp add: possible_bit_word)
  also have "\<dots> = bit w n"
  proof (cases "bit w n")
    case True
    with n show ?thesis
      by (cases "8 \<le> n"; cases "16 \<le> n"; cases "24 \<le> n"; simp; arith)
  next
    case False
    then show ?thesis
      by (cases "8 \<le> n"; cases "16 \<le> n"; cases "24 \<le> n"; simp)
  qed
  finally show "bit (le_int (le_bytes 4 w)) n = bit w n" .
qed

lemma length_le_bytes: "length (le_bytes n w) = n"
  by (induction n arbitrary: w) auto

lemma load_store_int: "load_int e (store_int e w) = w"
  by (cases e) (simp_all add: load_int_def store_int_def le_int_le_bytes)

lemma length_store_int: "length (store_int e w) = 4"
  by (cases e) (simp_all add: store_int_def length_le_bytes)

text \<open>Reading a Point back from a region that starts with its eight bytes.\<close>

lemma load_store_Point: "load_Point e (store_Point e p @ rest) = Some p"
  by (simp add: load_Point_def store_Point_def length_store_int load_store_int)

lemma BBPoint_distance_store:
  "BBPoint_distance e (DirectBuffer (store_Point e v1 @ r1)) (DirectBuffer (store_Point e v2 @ r2))
     = Some (distance v1 v2)"
  by (simp add: Java_org_openjdk_bench_jdk_incubator_foreign_points_support_BBPoint_distance_def
      load_store_Point)

lemma store_Point_1_1: "store_Point LittleEndian \<lparr>x = 1, y = 1\<rparr> = [1, 0, 0, 0, 1, 0, 0, 0]"
  by (simp add: store_Point_def store_int_def le_bytes_4)

lemma store_Point_4_5: "store_Point LittleEndian \<lparr>x = 4, y = 5\<rparr> = [4, 0, 0, 0, 5, 0, 0, 0]"
  by (simp add: store_Point_def store_int_def le_bytes_4)

subsection \<open>The distance function\<close>

text \<open>
  C1. For all Points \<open>p1 = (x1, y1)\<close> and \<open>p2 = (x2, y2)\<close>, \<open>distance\<close> returns the double
  \<open>sqrt (|x1 - x2|\<^sup>2 + |y1 - y2|\<^sup>2)\<close>, the differences, the absolute values, the squares
  and their sum being taken in signed 32-bit arithmetic and the result converted to
  double for the square root. The right-hand side is the formula on unbounded integers
  with each operation wrapped modulo \<open>2 ^ 32\<close>; the left-hand side is the code on
  machine words.
\<close>

theorem distance_is_spec_distance:
  "distance p1 p2 = spec_distance (sint (x p1)) (sint (y p1)) (sint (x p2)) (sint (y p2))"
  by (simp add: distance_def spec_distance_def Let_def double_of_int_def
      sint_plus32 sint_times32 sint_c_abs sint_minus32 power2_eq_square)

text \<open>
  C2. \<open>distance\<close> is symmetric: for all Points the call with the arguments swapped
  returns the same double. Where the wrapped sum of squares is negative, that double
  is NaN on both sides.
\<close>

theorem distance_symmetric: "distance p1 p2 = distance p2 p1"
  by (simp add: distance_radicand radicand_commute [of p1 p2])

text \<open>C6. The distance of a Point to itself is 0.\<close>

theorem distance_self: "distance p p = Finite 0"
  by (simp add: distance_radicand radicand_same double_of_int_def round_double_def)

text \<open>
  C7. \<open>distance\<close> returns exactly 5 on \<open>(0, 0)\<close>, \<open>(3, 4)\<close> and on \<open>(-3, -4)\<close>, \<open>(0, 0)\<close>.
\<close>

theorem distance_3_4_5:
  "distance \<lparr>x = 0, y = 0\<rparr> \<lparr>x = 3, y = 4\<rparr> = Finite 5 \<and>
   distance \<lparr>x = - 3, y = - 4\<rparr> \<lparr>x = 0, y = 0\<rparr> = Finite 5"
  by (simp add: distance_def c_abs_def double_of_int_def sqrt_25 round_double_5)

text \<open>
  C8. \<open>distance\<close> is a total function into the doubles: it has no error result and no
  guard against overflow. There are Points for which the product \<open>xDist * xDist\<close>
  exceeds the signed 32-bit range, wraps, and the value returned is neither the
  Euclidean distance of the two Points nor that distance rounded to a double. (The
  proof takes \<open>(0, 0)\<close> and \<open>(65536, 0)\<close>: the product \<open>2 ^ 32\<close> wraps to 0 and the result
  is 0 where the distance is 65536.)
\<close>

theorem distance_overflow_unguarded:
  "\<exists>p1 p2. 2 ^ 31 \<le> sint (c_abs (x p1 - x p2)) * sint (c_abs (x p1 - x p2))
     \<and> distance p1 p2 \<noteq> Finite (euclid p1 p2)
     \<and> distance p1 p2 \<noteq> Finite (round_double (euclid p1 p2))"
proof -
  let ?p1 = "\<lparr>x = 0, y = 0\<rparr>" and ?p2 = "\<lparr>x = 65536, y = 0\<rparr>"
  have "(2::int) ^ 31 \<le> sint (c_abs (x ?p1 - x ?p2)) * sint (c_abs (x ?p1 - x ?p2))"
    by (simp add: c_abs_def)
  moreover have "distance ?p1 ?p2 \<noteq> Finite (euclid ?p1 ?p2)"
    by (simp add: distance_65536 euclid_65536)
  moreover have "distance ?p1 ?p2 \<noteq> Finite (round_double (euclid ?p1 ?p2))"
    by (simp add: distance_65536 euclid_65536 round_double_65536)
  ultimately show ?thesis by blast
qed

text \<open>
  C10, as stated: every value \<open>distance\<close> returns is at least 0. It fails on \<open>(0, 0)\<close> and
  \<open>(46341, 0)\<close>: the square \<open>46341\<^sup>2 = 2147488281\<close> wraps to \<open>-2147479015\<close>, the square root
  of a negative number is NaN, and NaN is not at least 0.
\<close>

theorem distance_nonneg_counterexample:
  "\<not> double_ge (distance \<lparr>x = 0, y = 0\<rparr> \<lparr>x = 46341, y = 0\<rparr>) (Finite 0)"
  by (simp add: distance_46341)

text \<open>
  C10, amended. For all Points, the three forms of the distance function return the
  same double \<open>d\<close>, and \<open>d\<close> is at least 0 when the wrapped 32-bit sum of the squares is
  not negative as a signed integer; when it is negative, \<open>d\<close> is NaN.
\<close>

theorem distance_nonneg_or_NaN:
  assumes "m a1 = Some p1" and "m a2 = Some p2"
  shows "\<exists>d. distance p1 p2 = d \<and> distance_ptrs m a1 a2 = Some d
           \<and> JNIPoint_distance m a1 a2 = Some d
           \<and> (if 0 \<le> sint (radicand p1 p2) then double_ge d (Finite 0) else d = NaN)"
  using assms distance_sign [of p1 p2]
  by (simp add: distance_ptrs_eq JNIPoint_distance_eq)

theorem distance_nonneg_or_NaN_witness:
  "\<exists>d. distance \<lparr>x = 0, y = 0\<rparr> \<lparr>x = 3, y = 4\<rparr> = d
       \<and> distance_ptrs [8 \<mapsto> \<lparr>x = 0, y = 0\<rparr>, 16 \<mapsto> \<lparr>x = 3, y = 4\<rparr>] 8 16 = Some d
       \<and> JNIPoint_distance [8 \<mapsto> \<lparr>x = 0, y = 0\<rparr>, 16 \<mapsto> \<lparr>x = 3, y = 4\<rparr>] 8 16 = Some d
       \<and> double_ge d (Finite 0)"
proof -
  let ?m = "[8 \<mapsto> \<lparr>x = 0, y = 0\<rparr>, 16 \<mapsto> \<lparr>x = 3, y = 4\<rparr>] :: memory"
  have h1: "?m 8 = Some \<lparr>x = 0, y = 0\<rparr>" by simp
  have h2: "?m 16 = Some \<lparr>x = 3, y = 4\<rparr>" by simp
  have r: "0 \<le> sint (radicand \<lparr>x = 0, y = 0\<rparr> \<lparr>x = 3, y = 4\<rparr>)"
    by (simp add: radicand_def c_abs_def)
  from distance_nonneg_or_NaN [OF h1 h2] r show ?thesis
    by (simp only: if_True)
qed

subsection \<open>Handles\<close>

text \<open>
  C3. Let \<open>allocate\<close> yield the handle \<open>h\<close> of a Point (a non-null result; the null
  pointer of a failed \<^verbatim>\<open>malloc\<close> is no handle of a Point). Then \<open>setX(h, 7)\<close>, \<open>setY(h, 9)\<close>
  succeed, \<open>getX(h)\<close> returns 7 and \<open>getY(h)\<close> returns 9, and \<open>free(h)\<close> retires the handle:
  no Point is live at \<open>h\<close> afterwards and a read through it is undefined. The same holds
  for all values \<open>v\<close> and \<open>w\<close> in place of 7 and 9: a read returns the value last written
  through the handle.
\<close>

theorem JNIPoint_roundtrip:
  assumes "Java_org_openjdk_bench_jdk_incubator_foreign_points_support_JNIPoint_allocate
      m a junk = (h, m1)"
    and "h \<noteq> 0"
  shows "(\<exists>m2 m3 m4.
        Java_org_openjdk_bench_jdk_incubator_foreign_points_support_JNIPoint_setX m1 h 7 = Some m2
      \<and> Java_org_openjdk_bench_jdk_incubator_foreign_points_support_JNIPoint_setY m2 h 9 = Some m3
      \<and> Java_org_openjdk_bench_jdk_incubator_foreign_points_support_JNIPoint_getX m3 h = Some 7
      \<and> Java_org_openjdk_bench_jdk_incubator_foreign_points_support_JNIPoint_getY m3 h = Some 9
      \<and> Java_org_openjdk_bench_jdk_incubator_foreign_points_support_JNIPoint_free m3 h = Some m4
      \<and> m4 h = None
      \<and> Java_org_openjdk_bench_jdk_incubator_foreign_points_support_JNIPoint_getX m4 h = None)
    \<and> (\<forall>v w. \<exists>m2 m3.
        Java_org_openjdk_bench_jdk_incubator_foreign_points_support_JNIPoint_setX m1 h v = Some m2
      \<and> Java_org_openjdk_bench_jdk_incubator_foreign_points_support_JNIPoint_getX m2 h = Some v
      \<and> Java_org_openjdk_bench_jdk_incubator_foreign_points_support_JNIPoint_setY m2 h w = Some m3
      \<and> Java_org_openjdk_bench_jdk_incubator_foreign_points_support_JNIPoint_getX m3 h = Some v
      \<and> Java_org_openjdk_bench_jdk_incubator_foreign_points_support_JNIPoint_getY m3 h = Some w)"
proof -
  from allocate_live [OF assms] have m1: "m1 h = Some junk" by simp
  show ?thesis
    using m1 assms(2) by (simp add: JNIPoint_defs free_def)
qed

theorem JNIPoint_roundtrip_witness:
  "\<exists>m2 m3 m4. JNIPoint_setX [4096 \<mapsto> \<lparr>x = 0, y = 0\<rparr>] 4096 7 = Some m2
      \<and> JNIPoint_setY m2 4096 9 = Some m3
      \<and> JNIPoint_getX m3 4096 = Some 7 \<and> JNIPoint_getY m3 4096 = Some 9
      \<and> JNIPoint_free m3 4096 = Some m4 \<and> m4 4096 = None \<and> JNIPoint_getX m4 4096 = None"
proof -
  have a: "JNIPoint_allocate Map.empty 4096 \<lparr>x = 0, y = 0\<rparr>
      = (4096, [4096 \<mapsto> \<lparr>x = 0, y = 0\<rparr>])"
    by (simp add: JNIPoint_defs malloc_def)
  have n: "(4096 :: 64 word) \<noteq> 0" by simp
  from JNIPoint_roundtrip [OF a n] show ?thesis by (rule conjunct1)
qed

text \<open>
  C9. A successful \<open>setX(h, v)\<close> changes the field \<^verbatim>\<open>x\<close> of the Point at \<open>h\<close> and nothing else:
  the field \<^verbatim>\<open>y\<close> of that Point reads as before, and every other address of the store
  holds what it held. Likewise \<open>setY(h, w)\<close> changes the field \<^verbatim>\<open>y\<close> of that Point only.
  (Live Points are the blocks of \<^verbatim>\<open>malloc\<close>, which do not overlap: distinct addresses of
  the store are distinct Points.)
\<close>

theorem setX_setY_frame:
  "(Java_org_openjdk_bench_jdk_incubator_foreign_points_support_JNIPoint_setX m h v = Some m' \<longrightarrow>
      Java_org_openjdk_bench_jdk_incubator_foreign_points_support_JNIPoint_getX m' h = Some v
    \<and> Java_org_openjdk_bench_jdk_incubator_foreign_points_support_JNIPoint_getY m' h
        = Java_org_openjdk_bench_jdk_incubator_foreign_points_support_JNIPoint_getY m h
    \<and> (\<forall>q. q \<noteq> h \<longrightarrow> m' q = m q))
   \<and> (Java_org_openjdk_bench_jdk_incubator_foreign_points_support_JNIPoint_setY m h w = Some m'' \<longrightarrow>
      Java_org_openjdk_bench_jdk_incubator_foreign_points_support_JNIPoint_getY m'' h = Some w
    \<and> Java_org_openjdk_bench_jdk_incubator_foreign_points_support_JNIPoint_getX m'' h
        = Java_org_openjdk_bench_jdk_incubator_foreign_points_support_JNIPoint_getX m h
    \<and> (\<forall>q. q \<noteq> h \<longrightarrow> m'' q = m q))"
  by (auto simp: JNIPoint_defs split: option.splits)

theorem setX_setY_frame_witness:
  "JNIPoint_getX [16 \<mapsto> \<lparr>x = 7, y = 2\<rparr>, 32 \<mapsto> \<lparr>x = 3, y = 4\<rparr>] 16 = Some 7
   \<and> JNIPoint_getY [16 \<mapsto> \<lparr>x = 7, y = 2\<rparr>, 32 \<mapsto> \<lparr>x = 3, y = 4\<rparr>] 16 = Some 2
   \<and> [16 \<mapsto> \<lparr>x = 7, y = 2\<rparr>, 32 \<mapsto> \<lparr>x = 3, y = 4\<rparr>] (32 :: 64 word) = Some \<lparr>x = 3, y = 4\<rparr>
   \<and> JNIPoint_getY [16 \<mapsto> \<lparr>x = 1, y = 9\<rparr>, 32 \<mapsto> \<lparr>x = 3, y = 4\<rparr>] 16 = Some 9
   \<and> JNIPoint_getX [16 \<mapsto> \<lparr>x = 1, y = 9\<rparr>, 32 \<mapsto> \<lparr>x = 3, y = 4\<rparr>] 16 = Some 1
   \<and> [16 \<mapsto> \<lparr>x = 1, y = 9\<rparr>, 32 \<mapsto> \<lparr>x = 3, y = 4\<rparr>] (32 :: 64 word) = Some \<lparr>x = 3, y = 4\<rparr>"
proof -
  let ?m = "[32 \<mapsto> \<lparr>x = 3, y = 4\<rparr>, 16 \<mapsto> \<lparr>x = 1, y = 2\<rparr>] :: memory"
  let ?mx = "[16 \<mapsto> \<lparr>x = 7, y = 2\<rparr>, 32 \<mapsto> \<lparr>x = 3, y = 4\<rparr>] :: memory"
  let ?my = "[16 \<mapsto> \<lparr>x = 1, y = 9\<rparr>, 32 \<mapsto> \<lparr>x = 3, y = 4\<rparr>] :: memory"
  have sx: "JNIPoint_setX ?m 16 7 = Some ?mx"
    by (auto simp: JNIPoint_defs fun_eq_iff)
  have sy: "JNIPoint_setY ?m 16 9 = Some ?my"
    by (auto simp: JNIPoint_defs fun_eq_iff)
  have g: "JNIPoint_getY ?m 16 = Some 2" "JNIPoint_getX ?m 16 = Some 1"
    "?m 32 = Some \<lparr>x = 3, y = 4\<rparr>"
    by (simp_all add: JNIPoint_defs)
  have d: "(32 :: 64 word) \<noteq> 16" by simp
  from setX_setY_frame [of ?m 16 7 ?mx 9 ?my] sx sy g d show ?thesis
    by (metis (no_types, lifting))
qed

subsection \<open>The three forms and the buffer view\<close>

text \<open>
  C4. For all Points \<open>v1\<close> and \<open>v2\<close>: \<open>distance_ptrs\<close> on pointers to them, and the JNI entry
  point on two live handles whose Points have the same field values, both return the
  double that \<open>distance\<close> returns on \<open>v1\<close> and \<open>v2\<close>.
\<close>

theorem distance_forms_agree:
  assumes "m p1 = Some v1" and "m p2 = Some v2"
    and "m' h1 = Some w1" and "m' h2 = Some w2"
    and "x w1 = x v1" and "y w1 = y v1" and "x w2 = x v2" and "y w2 = y v2"
  shows "distance_ptrs m p1 p2 = Some (distance v1 v2)
       \<and> JNIPoint_distance m' h1 h2 = Some (distance v1 v2)"
proof -
  have "w1 = v1" "w2 = v2" using assms by simp_all
  with assms show ?thesis by (simp add: distance_ptrs_eq JNIPoint_distance_eq)
qed

theorem distance_forms_agree_witness:
  "distance_ptrs [8 \<mapsto> \<lparr>x = 1, y = 1\<rparr>, 16 \<mapsto> \<lparr>x = 4, y = 5\<rparr>] 8 16
     = Some (distance \<lparr>x = 1, y = 1\<rparr> \<lparr>x = 4, y = 5\<rparr>)
   \<and> JNIPoint_distance [24 \<mapsto> \<lparr>x = 1, y = 1\<rparr>, 32 \<mapsto> \<lparr>x = 4, y = 5\<rparr>] 24 32
     = Some (distance \<lparr>x = 1, y = 1\<rparr> \<lparr>x = 4, y = 5\<rparr>)"
proof -
  let ?m = "[8 \<mapsto> \<lparr>x = 1, y = 1\<rparr>, 16 \<mapsto> \<lparr>x = 4, y = 5\<rparr>] :: memory"
  let ?m' = "[24 \<mapsto> \<lparr>x = 1, y = 1\<rparr>, 32 \<mapsto> \<lparr>x = 4, y = 5\<rparr>] :: memory"
  have a: "?m 8 = Some \<lparr>x = 1, y = 1\<rparr>" "?m 16 = Some \<lparr>x = 4, y = 5\<rparr>"
    "?m' 24 = Some \<lparr>x = 1, y = 1\<rparr>" "?m' 32 = Some \<lparr>x = 4, y = 5\<rparr>" by simp_all
  have b: "x \<lparr>x = 1, y = 1\<rparr> = x \<lparr>x = 1, y = 1\<rparr>" "y \<lparr>x = 1, y = 1\<rparr> = y \<lparr>x = 1, y = 1\<rparr>"
    "x \<lparr>x = 4, y = 5\<rparr> = x \<lparr>x = 4, y = 5\<rparr>" "y \<lparr>x = 4, y = 5\<rparr> = y \<lparr>x = 4, y = 5\<rparr>"
    by simp_all
  show ?thesis by (rule distance_forms_agree [OF a b])
qed

text \<open>
  C5. On a direct buffer whose region starts with the eight bytes of \<open>(1, 1)\<close> in native
  byte order and another whose region starts with those of \<open>(4, 5)\<close>, whatever follows
  them, the buffer entry point returns 5; and for all Points it returns what the
  handle entry point returns on two live handles to Points with the same coordinates.
\<close>

theorem BBPoint_distance_buffers:
  "BBPoint_distance e (DirectBuffer (store_Point e \<lparr>x = 1, y = 1\<rparr> @ r1))
       (DirectBuffer (store_Point e \<lparr>x = 4, y = 5\<rparr> @ r2)) = Some (Finite 5)
   \<and> (m h1 = Some v1 \<and> m h2 = Some v2 \<longrightarrow>
        BBPoint_distance e (DirectBuffer (store_Point e v1 @ r1))
          (DirectBuffer (store_Point e v2 @ r2)) = JNIPoint_distance m h1 h2)"
  by (simp add: BBPoint_distance_store distance_1_1_4_5 JNIPoint_distance_eq)

theorem BBPoint_distance_buffers_witness:
  "BBPoint_distance LittleEndian (DirectBuffer [1, 0, 0, 0, 1, 0, 0, 0])
       (DirectBuffer [4, 0, 0, 0, 5, 0, 0, 0, 255]) = Some (Finite 5)
   \<and> BBPoint_distance LittleEndian (DirectBuffer [1, 0, 0, 0, 1, 0, 0, 0])
       (DirectBuffer [4, 0, 0, 0, 5, 0, 0, 0, 255])
     = JNIPoint_distance [24 \<mapsto> \<lparr>x = 1, y = 1\<rparr>, 32 \<mapsto> \<lparr>x = 4, y = 5\<rparr>] 24 32"
proof -
  let ?m = "[24 \<mapsto> \<lparr>x = 1, y = 1\<rparr>, 32 \<mapsto> \<lparr>x = 4, y = 5\<rparr>] :: memory"
  have a: "?m 24 = Some \<lparr>x = 1, y = 1\<rparr> \<and> ?m 32 = Some \<lparr>x = 4, y = 5\<rparr>" by simp
  have b1: "store_Point LittleEndian \<lparr>x = 1, y = 1\<rparr> @ [] = [1, 0, 0, 0, 1, 0, 0, 0]"
    by (simp add: store_Point_1_1)
  have b2: "store_Point LittleEndian \<lparr>x = 4, y = 5\<rparr> @ [255] = [4, 0, 0, 0, 5, 0, 0, 0, 255]"
    by (simp add: store_Point_4_5)
  note BBPoint_distance_buffers
    [of LittleEndian "[]" "[255]" ?m 24 "\<lparr>x = 1, y = 1\<rparr>" 32 "\<lparr>x = 4, y = 5\<rparr>",
      unfolded b1 b2]
  with a show ?thesis by blast
qed

end
